theory Spec2Isabelle
  imports Complex_Main "HOL-Library.Log_Nat"
begin

section \<open>JavaScript numbers\<close>

text \<open>
  A JavaScript number is \<open>NaN\<close>, one of the two infinities, or a finite number, here a
  real. \<open>NaN\<close> propagates through arithmetic and makes every comparison false, and the
  infinities follow the IEEE rules (\<open>Infinity - Infinity\<close> and \<open>0 * Infinity\<close> are
  \<open>NaN\<close>). The signed zero is not distinguished. Reading an array beyond its end gives
  \<open>undefined\<close>, which arithmetic turns into \<open>NaN\<close>; a rate array therefore holds
  \<open>jsnum\<close> entries, \<open>NaN\<close> also standing for a hole.

  The sums, differences and products of the bonus calculation (\<open>js_add\<close>, \<open>js_sub\<close>,
  \<open>js_mul\<close>) are exact on finite numbers: the rounding of each operation to a double is
  left out there. The products that derive the thresholds from the salary are rounded to the
  nearest double (\<open>js_times\<close>), since the derived thresholds are compared with other
  products of the salary.
\<close>

datatype jsnum = NaN | Num real | PInf | NInf

fun js_neg :: "jsnum \<Rightarrow> jsnum" where
  "js_neg NaN = NaN"
| "js_neg (Num a) = Num (- a)"
| "js_neg PInf = NInf"
| "js_neg NInf = PInf"

fun js_add :: "jsnum \<Rightarrow> jsnum \<Rightarrow> jsnum" where
  "js_add (Num a) (Num b) = Num (a + b)"
| "js_add NaN _ = NaN"
| "js_add _ NaN = NaN"
| "js_add PInf NInf = NaN"
| "js_add NInf PInf = NaN"
| "js_add PInf _ = PInf"
| "js_add _ PInf = PInf"
| "js_add NInf _ = NInf"
| "js_add _ NInf = NInf"

definition js_sub :: "jsnum \<Rightarrow> jsnum \<Rightarrow> jsnum" where
  "js_sub a b = js_add a (js_neg b)"

text \<open>The sign of a product with an infinity; \<open>0 * Infinity\<close> is \<open>NaN\<close>.\<close>

definition inf_times :: "bool \<Rightarrow> real \<Rightarrow> jsnum" where
  "inf_times positive b =
     (if b = 0 then NaN else if (0 < b) = positive then PInf else NInf)"

fun js_mul :: "jsnum \<Rightarrow> jsnum \<Rightarrow> jsnum" where
  "js_mul (Num a) (Num b) = Num (a * b)"
| "js_mul NaN _ = NaN"
| "js_mul _ NaN = NaN"
| "js_mul PInf (Num b) = inf_times True b"
| "js_mul NInf (Num b) = inf_times False b"
| "js_mul (Num a) PInf = inf_times True a"
| "js_mul (Num a) NInf = inf_times False a"
| "js_mul PInf PInf = PInf"
| "js_mul NInf NInf = PInf"
| "js_mul PInf NInf = NInf"
| "js_mul NInf PInf = NInf"

text \<open>\<open>x / 100\<close>: the only division of the program.\<close>

fun js_div100 :: "jsnum \<Rightarrow> jsnum" where
  "js_div100 (Num a) = Num (a / 100)"
| "js_div100 x = x"


fun isNaN :: "jsnum \<Rightarrow> bool" where
  "isNaN NaN = True"
| "isNaN _ = False"

text \<open>\<open>a <= b\<close> and \<open>a < b\<close>: false as soon as one side is \<open>NaN\<close>.\<close>

fun js_le :: "jsnum \<Rightarrow> jsnum \<Rightarrow> bool" where
  "js_le (Num a) (Num b) = (a \<le> b)"
| "js_le NaN _ = False"
| "js_le _ NaN = False"
| "js_le NInf _ = True"
| "js_le _ PInf = True"
| "js_le PInf _ = False"
| "js_le _ NInf = False"

fun js_less :: "jsnum \<Rightarrow> jsnum \<Rightarrow> bool" where
  "js_less (Num a) (Num b) = (a < b)"
| "js_less NaN _ = False"
| "js_less _ NaN = False"
| "js_less PInf _ = False"
| "js_less _ NInf = False"
| "js_less NInf _ = True"
| "js_less _ PInf = True"

text \<open>The comparisons with the constant 0 that the program makes.\<close>

definition js_gt :: "jsnum \<Rightarrow> real \<Rightarrow> bool" where
  "js_gt a b = js_less (Num b) a"

definition js_lt :: "jsnum \<Rightarrow> real \<Rightarrow> bool" where
  "js_lt a b = js_less a (Num b)"

definition js_ge :: "jsnum \<Rightarrow> real \<Rightarrow> bool" where
  "js_ge a b = js_le (Num b) a"

definition js_leq :: "jsnum \<Rightarrow> real \<Rightarrow> bool" where
  "js_leq a b = js_le a (Num b)"

text \<open>\<open>Math.min\<close> of two numbers.\<close>

definition js_min :: "jsnum \<Rightarrow> jsnum \<Rightarrow> jsnum" where
  "js_min a b = (if isNaN a \<or> isNaN b then NaN else if js_le a b then a else b)"

text \<open>\<open>x || 0\<close>: the falsy numbers are \<open>NaN\<close> and zero.\<close>

fun js_or_zero :: "jsnum \<Rightarrow> jsnum" where
  "js_or_zero NaN = Num 0"
| "js_or_zero (Num a) = (if a = 0 then Num 0 else Num a)"
| "js_or_zero PInf = PInf"
| "js_or_zero NInf = NInf"

text \<open>\<open>xs[k]\<close> used as a number: outside the array the read is \<open>undefined\<close>.\<close>

definition js_index :: "jsnum list \<Rightarrow> int \<Rightarrow> jsnum" where
  "js_index xs k = (if 0 \<le> k \<and> k < int (length xs) then xs ! nat k else NaN)"

text \<open>\<open>xs[i] = v\<close> on a copy of the array: an index beyond the end extends the array,
  leaving holes in between.\<close>

definition js_array_set :: "jsnum list \<Rightarrow> nat \<Rightarrow> jsnum \<Rightarrow> jsnum list" where
  "js_array_set xs i v =
     (if i < length xs then xs[i := v] else xs @ replicate (i - length xs) NaN @ [v])"

subsection \<open>Products rounded to a double\<close>

text \<open>
  IEEE 754 binary64, round to nearest, ties to even. \<open>round_half_even\<close> rounds a real to an
  integer; \<open>binade\<close> is the exponent \<open>e\<close> with \<open>2 ^ e \<le> x < 2 ^ (e + 1)\<close> of a positive
  \<open>x\<close>; a double has 53 significant bits, exponents from -1022 (below which the spacing
  stays \<open>2 ^ -1074\<close>) and overflows to an infinity from \<open>2 ^ 1024\<close> on.
\<close>

definition round_half_even :: "real \<Rightarrow> int" where
  "round_half_even x =
     (let f = \<lfloor>x\<rfloor>; d = x - of_int f
      in if d < 1 / 2 then f else if 1 / 2 < d then f + 1 else if even f then f else f + 1)"

definition binade :: "real \<Rightarrow> int" where
  "binade x =
     (if 1 \<le> x then bitlen \<lfloor>x\<rfloor> - 1
      else let k = bitlen \<lfloor>1 / x\<rfloor> - 1
           in if x * 2 ^ nat k = 1 then - k else - k - 1)"

definition round_double :: "real \<Rightarrow> jsnum" where
  "round_double x =
     (if x = 0 then Num 0
      else
        let e = max (binade \<bar>x\<bar>) (- 1022);
            u = 2 powi (e - 52);
            r = of_int (round_half_even (\<bar>x\<bar> / u)) * u
        in if 2 ^ 1024 \<le> r then (if 0 < x then PInf else NInf)
           else Num (if 0 < x then r else - r))"

text \<open>\<open>a * b\<close> on doubles: the exact product, rounded.\<close>

fun js_times :: "jsnum \<Rightarrow> jsnum \<Rightarrow> jsnum" where
  "js_times (Num a) (Num b) = round_double (a * b)"
| "js_times a b = js_mul a b"

section \<open>Tier configuration\<close>

record tier =
  thresholds :: "jsnum list"
  rates :: "jsnum list"

text \<open>An object with the two keys \<open>monthly\<close> and \<open>quarterly\<close>; \<open>type\<close> selects one.\<close>

record 'a schemes =
  monthly :: 'a
  quarterly :: 'a

datatype scheme = Monthly | Quarterly

fun at_scheme :: "'a schemes \<Rightarrow> scheme \<Rightarrow> 'a" where
  "at_scheme c Monthly = monthly c"
| "at_scheme c Quarterly = quarterly c"

fun set_scheme :: "'a schemes \<Rightarrow> scheme \<Rightarrow> 'a \<Rightarrow> 'a schemes" where
  "set_scheme c Monthly x = c\<lparr>monthly := x\<rparr>"
| "set_scheme c Quarterly x = c\<lparr>quarterly := x\<rparr>"

definition INITIAL_TIER_CONFIG :: "tier schemes" where
  "INITIAL_TIER_CONFIG =
     \<lparr>monthly = \<lparr>thresholds = [Num 120000, Num 200000, Num 400000],
                 rates = [Num (3/100), Num (5/100), Num (10/100)]\<rparr>,
      quarterly = \<lparr>thresholds = [Num 360000, Num 600000, Num 1200000],
                   rates = [Num (3/100), Num (5/100), Num (10/100)]\<rparr>\<rparr>"

definition TIER_MULTIPLIERS :: "jsnum list" where
  "TIER_MULTIPLIERS = [Num 3, Num 5, Num 10]"

definition INITIAL_RATES :: "jsnum list schemes" where
  "INITIAL_RATES =
     \<lparr>monthly = [Num (3/100), Num (5/100), Num (10/100), Num (15/100)],
      quarterly = [Num (3/100), Num (5/100), Num (10/100), Num (15/100)]\<rparr>"

section \<open>The progressive bonus\<close>

text \<open>
  The \<open>for\<close> loop of \<open>calculateProgressiveBonus\<close>, as a recursion over the thresholds
  still to visit: \<open>i\<close> is the loop index, and the state is \<open>bonus\<close>, \<open>remainingPerf\<close>
  and \<open>lowerBound\<close>. The result is \<open>bonus\<close> and \<open>remainingPerf\<close> at the loop's exit.
\<close>

fun tierLoop :: "jsnum list \<Rightarrow> jsnum list \<Rightarrow> nat \<Rightarrow> jsnum \<Rightarrow> jsnum \<Rightarrow> jsnum \<Rightarrow> jsnum \<times> jsnum" where
  "tierLoop rs [] i bonus remainingPerf lowerBound = (bonus, remainingPerf)"
| "tierLoop rs (upperBound # ts) i bonus remainingPerf lowerBound =
     (let rate = js_index rs (int i) in
      if js_leq remainingPerf 0 then (bonus, remainingPerf)
      else
        let tierRange = js_sub upperBound lowerBound;
            amountInTier = js_min remainingPerf tierRange
        in tierLoop rs ts (Suc i)
             (js_add bonus (js_mul amountInTier rate))
             (js_sub remainingPerf amountInTier)
             upperBound)"

definition calculateProgressiveBonus :: "jsnum \<Rightarrow> scheme \<Rightarrow> tier schemes \<Rightarrow> jsnum" where
  "calculateProgressiveBonus performance type config =
     (let ths = thresholds (at_scheme config type);
          rs = rates (at_scheme config type)
      in case tierLoop rs ths 0 (Num 0) performance (Num 0) of
           (bonus, remainingPerf) \<Rightarrow>
             if js_gt remainingPerf 0
             then js_add bonus (js_mul remainingPerf (js_index rs (int (length rs) - 1)))
             else bonus)"

section \<open>Salary-relative thresholds\<close>

text \<open>
  \<open>dynamicTierConfig\<close>: the stored salary is a number or the text of the input field;
  the builtin conversion \<open>Number\<close> is a parameter (\<open>toNumber\<close>). The two products of each
  threshold are double products.
\<close>

definition dynamicTierConfig :: "('v \<Rightarrow> jsnum) \<Rightarrow> 'v \<Rightarrow> jsnum list schemes \<Rightarrow> tier schemes" where
  "dynamicTierConfig toNumber monthlySalary tierRates =
     (let salary = js_or_zero (toNumber monthlySalary);
          monthlyThresholds = map (\<lambda>m. js_times m salary) TIER_MULTIPLIERS;
          quarterlyThresholds = map (\<lambda>t. js_times t (Num 3)) monthlyThresholds
      in \<lparr>monthly = \<lparr>thresholds = monthlyThresholds, rates = monthly tierRates\<rparr>,
          quarterly = \<lparr>thresholds = quarterlyThresholds, rates = quarterly tierRates\<rparr>\<rparr>)"

section \<open>Editing rates\<close>

text \<open>
  \<open>handleRateChange\<close> of the salary-relative variant: the state is the two rate arrays.
\<close>

definition handleRateChange :: "scheme \<Rightarrow> nat \<Rightarrow> jsnum \<Rightarrow> jsnum list schemes \<Rightarrow> jsnum list schemes" where
  "handleRateChange type index newRate prev =
     (let newRates = js_array_set (at_scheme prev type) index newRate
      in set_scheme prev type newRates)"

text \<open>
  \<open>handleRateChange\<close> of the fixed-threshold variant: the state is the whole tier
  configuration, of which only the \<open>rates\<close> of the chosen scheme are replaced.
\<close>

definition handleRateChange_fixed :: "scheme \<Rightarrow> nat \<Rightarrow> jsnum \<Rightarrow> tier schemes \<Rightarrow> tier schemes" where
  "handleRateChange_fixed type index newRate prevConfig =
     (let newRates = js_array_set (rates (at_scheme prevConfig type)) index newRate
      in set_scheme prevConfig type ((at_scheme prevConfig type)\<lparr>rates := newRates\<rparr>))"

text \<open>
  \<open>handleInputChange\<close> is the same in both variants; the builtin \<open>parseFloat\<close> and the
  callback \<open>onRateChange\<close> are parameters, and the state the callback updates is passed
  through.
\<close>

definition handleInputChange ::
  "(string \<Rightarrow> jsnum) \<Rightarrow> (scheme \<Rightarrow> nat \<Rightarrow> jsnum \<Rightarrow> 's \<Rightarrow> 's) \<Rightarrow> scheme \<Rightarrow> nat \<Rightarrow> string \<Rightarrow> 's \<Rightarrow> 's" where
  "handleInputChange parseFloat onRateChange type index value st =
     (let newRate = parseFloat value
      in if \<not> isNaN newRate \<and> js_ge newRate 0
         then onRateChange type index (js_div100 newRate) st
         else st)"

text \<open>The rows of a tier table (labels left out): the rate shown and the index edited.\<close>

record tier_row =
  row_rate :: jsnum
  row_index :: nat

definition tierRows :: "jsnum list \<Rightarrow> tier_row list" where
  "tierRows rs =
     [\<lparr>row_rate = js_index rs 0, row_index = 0\<rparr>,
      \<lparr>row_rate = js_index rs 1, row_index = 1\<rparr>,
      \<lparr>row_rate = js_index rs 2, row_index = 2\<rparr>,
      \<lparr>row_rate = js_index rs 3, row_index = 3\<rparr>]"

definition tierRows_fixed :: "jsnum list \<Rightarrow> tier_row list" where
  "tierRows_fixed rs =
     [\<lparr>row_rate = js_index rs 0, row_index = 0\<rparr>,
      \<lparr>row_rate = js_index rs 1, row_index = 1\<rparr>,
      \<lparr>row_rate = js_index rs 2, row_index = 2\<rparr>,
      \<lparr>row_rate = js_index rs 2, row_index = 2\<rparr>]"

text \<open>
  A user edit: the text \<open>value\<close> typed into the input of row number \<open>k\<close> of the table of
  scheme \<open>type\<close>. A row that does not exist has no input; in the fixed-threshold variant
  the input of the last row is disabled and raises no change event.
\<close>

definition tableEdit :: "(string \<Rightarrow> jsnum) \<Rightarrow> scheme \<times> nat \<times> string \<Rightarrow> jsnum list schemes \<Rightarrow> jsnum list schemes" where
  "tableEdit parseFloat e st =
     (case e of (type, k, value) \<Rightarrow>
        let rows = tierRows (at_scheme st type)
        in if k < length rows
           then handleInputChange parseFloat handleRateChange type (row_index (rows ! k)) value st
           else st)"

definition tableEdit_fixed :: "(string \<Rightarrow> jsnum) \<Rightarrow> scheme \<times> nat \<times> string \<Rightarrow> tier schemes \<Rightarrow> tier schemes" where
  "tableEdit_fixed parseFloat e st =
     (case e of (type, k, value) \<Rightarrow>
        let rows = tierRows_fixed (rates (at_scheme st type))
        in if k < length rows \<and> k \<noteq> length rows - 1
           then handleInputChange parseFloat handleRateChange_fixed type (row_index (rows ! k)) value st
           else st)"

section \<open>Scheme comparison\<close>

record 'v perf =
  perf1 :: 'v
  perf2 :: 'v
  perf3 :: 'v

text \<open>The \<open>results\<close> object; its two \<open>total\<close> fields are \<open>total_m\<close> and \<open>total_q\<close>.\<close>

record monthly_result =
  bonus1 :: jsnum
  bonus2 :: jsnum
  bonus3 :: jsnum
  total_m :: jsnum

record quarterly_result =
  totalPerf :: jsnum
  total_q :: jsnum

record results =
  monthly_res :: monthly_result
  quarterly_res :: quarterly_result

text \<open>\<open>calculateResults\<close> of the fixed-threshold variant (\<open>toNumber\<close> is \<open>Number\<close>).\<close>

definition calculateResults :: "('v \<Rightarrow> jsnum) \<Rightarrow> 'v perf \<Rightarrow> tier schemes \<Rightarrow> results" where
  "calculateResults toNumber initialPerf tierConfig =
     (let p1 = js_or_zero (toNumber (perf1 initialPerf));
          p2 = js_or_zero (toNumber (perf2 initialPerf));
          p3 = js_or_zero (toNumber (perf3 initialPerf));
          b1 = calculateProgressiveBonus p1 Monthly tierConfig;
          b2 = calculateProgressiveBonus p2 Monthly tierConfig;
          b3 = calculateProgressiveBonus p3 Monthly tierConfig;
          totalMonthlyBonus = js_add (js_add b1 b2) b3;
          totalQuarterlyPerf = js_add (js_add p1 p2) p3;
          quarterlyBonus = calculateProgressiveBonus totalQuarterlyPerf Quarterly tierConfig
      in \<lparr>monthly_res = \<lparr>bonus1 = b1, bonus2 = b2, bonus3 = b3, total_m = totalMonthlyBonus\<rparr>,
          quarterly_res = \<lparr>totalPerf = totalQuarterlyPerf, total_q = quarterlyBonus\<rparr>\<rparr>)"

text \<open>
  The effect of \<open>CalculatorPanel\<close> in the salary-relative variant: the value it passes to
  \<open>setResults\<close>, \<open>None\<close> for \<open>null\<close>.
\<close>

definition calculatorEffect :: "('v \<Rightarrow> jsnum) \<Rightarrow> 'v perf \<Rightarrow> tier schemes \<Rightarrow> results option" where
  "calculatorEffect toNumber perfData tierConfig =
     (let p1 = js_or_zero (toNumber (perf1 perfData));
          p2 = js_or_zero (toNumber (perf2 perfData));
          p3 = js_or_zero (toNumber (perf3 perfData))
      in if p1 = Num 0 \<and> p2 = Num 0 \<and> p3 = Num 0 then None
         else
           let b1 = calculateProgressiveBonus p1 Monthly tierConfig;
               b2 = calculateProgressiveBonus p2 Monthly tierConfig;
               b3 = calculateProgressiveBonus p3 Monthly tierConfig;
               totalMonthlyBonus = js_add (js_add b1 b2) b3;
               totalQuarterlyPerf = js_add (js_add p1 p2) p3;
               quarterlyBonus = calculateProgressiveBonus totalQuarterlyPerf Quarterly tierConfig
           in Some \<lparr>monthly_res = \<lparr>bonus1 = b1, bonus2 = b2, bonus3 = b3, total_m = totalMonthlyBonus\<rparr>,
                    quarterly_res = \<lparr>totalPerf = totalQuarterlyPerf, total_q = quarterlyBonus\<rparr>\<rparr>)"



section \<open>Notions used to state the properties\<close>

text \<open>A finite number.\<close>

fun js_finite :: "jsnum \<Rightarrow> bool" where
  "js_finite (Num a) = True"
| "js_finite _ = False"

text \<open>The bonus computed from a state of the loop: the rest of the loop, then the overflow.\<close>

definition bonusFrom :: "jsnum list \<Rightarrow> jsnum list \<Rightarrow> nat \<Rightarrow> jsnum \<Rightarrow> jsnum \<Rightarrow> jsnum \<Rightarrow> jsnum" where
  "bonusFrom rs ts i bonus remainingPerf lowerBound =
     (case tierLoop rs ts i bonus remainingPerf lowerBound of
        (b, r) \<Rightarrow>
          if js_gt r 0 then js_add b (js_mul r (js_index rs (int (length rs) - 1))) else b)"

section \<open>Arithmetic on finite numbers\<close>

lemma js_sub_Num [simp]: "js_sub (Num a) (Num b) = Num (a - b)"
  by (simp add: js_sub_def)

lemma js_min_Num [simp]: "js_min (Num a) (Num b) = Num (min a b)"
  by (simp add: js_min_def min_def)

lemma js_leq_Num [simp]: "js_leq (Num a) b = (a \<le> b)"
  by (simp add: js_leq_def)

lemma js_gt_Num [simp]: "js_gt (Num a) b = (b < a)"
  by (simp add: js_gt_def)

lemma js_lt_Num [simp]: "js_lt (Num a) b = (a < b)"
  by (simp add: js_lt_def)

lemma js_ge_Num [simp]: "js_ge (Num a) b = (b \<le> a)"
  by (simp add: js_ge_def)

lemma js_ge_cases: "js_ge r 0 \<Longrightarrow> (\<exists>a. r = Num a \<and> 0 \<le> a) \<or> r = PInf"
  by (cases r) (simp_all add: js_ge_def)


lemma js_leq_not_gt: "js_leq r 0 \<Longrightarrow> \<not> js_gt r 0"
  by (cases r) (simp_all add: js_leq_def js_gt_def)

lemma js_add_zero_left [simp]: "js_add (Num 0) x = x"
  by (cases x) simp_all

lemma js_add_zero_right [simp]: "js_add x (Num 0) = x"
  by (cases x) simp_all




section \<open>Properties of the loop\<close>

lemma calculateProgressiveBonus_bonusFrom:
  "calculateProgressiveBonus p ty cfg =
     bonusFrom (rates (at_scheme cfg ty)) (thresholds (at_scheme cfg ty)) 0 (Num 0) p (Num 0)"
  by (simp add: calculateProgressiveBonus_def bonusFrom_def Let_def)

lemma bonusFrom_Nil:
  "bonusFrom rs [] i b r lo =
     (if js_gt r 0 then js_add b (js_mul r (js_index rs (int (length rs) - 1))) else b)"
  by (simp add: bonusFrom_def)

lemma bonusFrom_Cons:
  "bonusFrom rs (Num u # ts) i b (Num r) (Num lo) =
     (if r \<le> 0 then b
      else bonusFrom rs ts (Suc i) (js_add b (js_mul (Num (min r (u - lo))) (js_index rs (int i))))
             (Num (r - min r (u - lo))) (Num u))"
  by (simp add: bonusFrom_def Let_def)

lemma bonusFrom_nonpos: "js_leq r 0 \<Longrightarrow> bonusFrom rs ts i b r lo = b"
  by (cases ts) (simp_all add: bonusFrom_def js_leq_not_gt)

section \<open>Doubles\<close>

lemma round_half_even_int [simp]: "round_half_even (of_int j) = j"
  by (simp add: round_half_even_def)

lemma round_double_zero [simp]: "round_double 0 = Num 0"
  by (simp add: round_double_def)

lemma round_double_int:
  assumes "0 < m" and "m < 2 ^ 53"
  shows "round_double (of_int m) = Num (of_int m)"
proof -
  let ?e = "bitlen m - 1"
  have b1: "1 \<le> bitlen m"
    using assms(1) bitlen_eq_zero_iff [of m] bitlen_nonneg [of m] by arith
  have b2: "bitlen m \<le> 53"
    using assms(2) by (simp add: bitlen_le_iff_power)
  define k where "k = nat (52 - ?e)"
  have e: "?e - 52 = - int k" using b1 b2 by (simp add: k_def)
  have bin: "binade (real_of_int m) = ?e"
    using assms(1) by (simp add: binade_def)
  have mx: "max ?e (- 1022) = ?e" using b1 by simp
  have u: "(2::real) powi (?e - 52) = 1 / 2 ^ k"
    unfolding e by (simp add: power_int_def field_simps)
  have q: "real_of_int m / (1 / 2 ^ k) = of_int (m * 2 ^ k)"
    by simp
  have r: "of_int (round_half_even (real_of_int m / (1 / 2 ^ k))) * (1 / 2 ^ k) = real_of_int m"
    unfolding q round_half_even_int by simp
  have small: "\<not> (2::real) ^ 1024 \<le> real_of_int m"
  proof -
    have "real_of_int m < 2 ^ 53" using assms(2) by (metis of_int_less_numeral_power_cancel_iff)
    also have "\<dots> \<le> (2::real) ^ 1024" by (rule power_increasing) simp_all
    finally show ?thesis by simp
  qed
  have absm: "\<bar>real_of_int m\<bar> = real_of_int m" using assms(1) by simp
  have nz: "real_of_int m \<noteq> 0" and pos: "0 < real_of_int m" using assms(1) by simp_all
  show ?thesis
    unfolding round_double_def Let_def absm bin mx u r
    using nz pos small by (simp only: if_False if_True)
qed

lemma js_times_int:
  assumes "0 \<le> a" and "0 \<le> b" and "a * b < 2 ^ 53"
  shows "js_times (Num (of_int a)) (Num (of_int b)) = Num (of_int (a * b))"
proof (cases "a * b = 0")
  case True
  then show ?thesis by auto
next
  case False
  then have "0 < a * b" using assms(1,2) by (simp add: zero_less_mult_iff less_le)
  from round_double_int [OF this assms(3)] show ?thesis by simp
qed

lemma thresholds_int_salary:
  assumes "0 \<le> n" and "30 * n < 2 ^ 53"
  shows "thresholds (monthly (dynamicTierConfig Num (of_int n) tr))
       = [Num (of_int (3 * n)), Num (of_int (5 * n)), Num (of_int (10 * n))]"
    and "thresholds (quarterly (dynamicTierConfig Num (of_int n) tr))
       = [Num (of_int (9 * n)), Num (of_int (15 * n)), Num (of_int (30 * n))]"
proof -
  have s: "js_or_zero (Num (of_int n)) = Num (of_int n)" by simp
  have m: "js_times (Num 3) (Num (of_int n)) = Num (of_int (3 * n))"
    "js_times (Num 5) (Num (of_int n)) = Num (of_int (5 * n))"
    "js_times (Num 10) (Num (of_int n)) = Num (of_int (10 * n))"
    using js_times_int [of 3 n] js_times_int [of 5 n] js_times_int [of 10 n] assms by simp_all
  have q: "js_times (Num (of_int (3 * n))) (Num 3) = Num (of_int (9 * n))"
    "js_times (Num (of_int (5 * n))) (Num 3) = Num (of_int (15 * n))"
    "js_times (Num (of_int (10 * n))) (Num 3) = Num (of_int (30 * n))"
    using js_times_int [of "3 * n" 3] js_times_int [of "5 * n" 3] js_times_int [of "10 * n" 3] assms
    by simp_all
  show "thresholds (monthly (dynamicTierConfig Num (of_int n) tr))
       = [Num (of_int (3 * n)), Num (of_int (5 * n)), Num (of_int (10 * n))]"
    by (simp only: dynamicTierConfig_def TIER_MULTIPLIERS_def Let_def s list.map m
        schemes.simps tier.simps)
  show "thresholds (quarterly (dynamicTierConfig Num (of_int n) tr))
       = [Num (of_int (9 * n)), Num (of_int (15 * n)), Num (of_int (30 * n))]"
    by (simp only: dynamicTierConfig_def TIER_MULTIPLIERS_def Let_def s list.map m q
        schemes.simps tier.simps)
qed

lemma thresholds_40000:
  "thresholds (monthly (dynamicTierConfig Num 40000 tr)) = [Num 120000, Num 200000, Num 400000]"
  "thresholds (quarterly (dynamicTierConfig Num 40000 tr)) = [Num 360000, Num 600000, Num 1200000]"
  using thresholds_int_salary [of 40000 tr] by simp_all

section \<open>Scenarios\<close>

lemma scenario_150000:
  "calculateProgressiveBonus (Num 150000) Monthly INITIAL_TIER_CONFIG = Num 5100"
  by (simp add: calculateProgressiveBonus_def INITIAL_TIER_CONFIG_def js_index_def)

text \<open>
  Claim C1, as stated: with thresholds 120000, 200000, 400000 and rates 0.03, 0.05, 0.10,
  a performance of 450000 gives a bonus of 27600. It does not: the loop pays 3600, 4000
  and 20000 on the three bounded tiers, and the 50000 above the highest threshold are then
  paid at the last rate \<open>rates[rates.length - 1] = 0.10\<close>, which adds 5000.
\<close>

theorem C1_bonus_450000_not_27600:
  "calculateProgressiveBonus (Num 450000) Monthly INITIAL_TIER_CONFIG \<noteq> Num 27600"
  by (simp add: calculateProgressiveBonus_def INITIAL_TIER_CONFIG_def js_index_def)

text \<open>
  Claim C1, amended: for the three-rate configuration with thresholds 120000, 200000,
  400000 and rates 0.03, 0.05, 0.10, \<open>calculateProgressiveBonus\<close> applied to a
  performance of 450000 returns exactly 32600, which is 3600 + 4000 + 20000 + 5000.
\<close>

theorem C1_bonus_450000:
  "calculateProgressiveBonus (Num 450000) Monthly INITIAL_TIER_CONFIG = Num 32600"
  by (simp add: calculateProgressiveBonus_def INITIAL_TIER_CONFIG_def js_index_def)

text \<open>
  Claim C2: in the salary-relative variant the default salary 40000 gives the monthly
  thresholds 120000, 200000, 400000; with the initial rates 0.03, 0.05, 0.10, 0.15 a
  performance of 500000 gives a bonus of exactly 42600.
\<close>

theorem C2_four_tier_500000:
  "thresholds (monthly (dynamicTierConfig Num 40000 INITIAL_RATES))
     = [Num 120000, Num 200000, Num 400000]
   \<and> rates (monthly (dynamicTierConfig Num 40000 INITIAL_RATES))
       = [Num (3/100), Num (5/100), Num (10/100), Num (15/100)]
   \<and> calculateProgressiveBonus (Num 500000) Monthly (dynamicTierConfig Num 40000 INITIAL_RATES)
       = Num 42600"
proof -
  have r: "rates (monthly (dynamicTierConfig Num 40000 INITIAL_RATES))
       = [Num (3/100), Num (5/100), Num (10/100), Num (15/100)]"
    by (simp add: dynamicTierConfig_def INITIAL_RATES_def Let_def)
  have "calculateProgressiveBonus (Num 500000) Monthly (dynamicTierConfig Num 40000 INITIAL_RATES)
       = Num 42600"
    by (simp add: calculateProgressiveBonus_def thresholds_40000 r js_index_def)
  with r thresholds_40000(1) [of INITIAL_RATES] show ?thesis by simp
qed

section \<open>Monotonicity\<close>














section \<open>Zero and negative performance\<close>

text \<open>
  Claim C4: for every tier configuration (a valid one in particular), the bonus of a
  performance of 0 is 0, and so is the bonus of every negative performance, \<open>-Infinity\<close>
  included: the loop is left at once, or not entered, and the overflow branch is not taken.
\<close>

theorem C4_nonpositive_performance:
  "js_leq p 0 \<Longrightarrow> calculateProgressiveBonus p ty cfg = Num 0"
  by (simp add: calculateProgressiveBonus_bonusFrom bonusFrom_nonpos)

theorem C4_nonpositive_performance_witness:
  "js_leq (Num 0) 0 \<and> calculateProgressiveBonus (Num 0) Monthly INITIAL_TIER_CONFIG = Num 0
   \<and> js_leq (Num (-7)) 0
   \<and> calculateProgressiveBonus (Num (-7)) Quarterly (dynamicTierConfig Num 40000 INITIAL_RATES) = Num 0
   \<and> js_leq NInf 0 \<and> calculateProgressiveBonus NInf Monthly INITIAL_TIER_CONFIG = Num 0"
proof -
  have h0: "js_leq (Num 0) 0" and h7: "js_leq (Num (-7)) 0" and hi: "js_leq NInf 0"
    by (simp_all add: js_leq_def)
  from C4_nonpositive_performance [OF h0, of Monthly INITIAL_TIER_CONFIG]
    C4_nonpositive_performance [OF h7, of Quarterly "dynamicTierConfig Num 40000 INITIAL_RATES"]
    C4_nonpositive_performance [OF hi, of Monthly INITIAL_TIER_CONFIG] h0 h7 hi
  show ?thesis by (intro conjI)
qed

section \<open>Results that are numbers\<close>



lemma calculatorEffect_calculateResults:
  "calculatorEffect toNumber pd cfg =
     (if js_or_zero (toNumber (perf1 pd)) = Num 0 \<and> js_or_zero (toNumber (perf2 pd)) = Num 0
         \<and> js_or_zero (toNumber (perf3 pd)) = Num 0
      then None else Some (calculateResults toNumber pd cfg))"
  by (simp add: calculatorEffect_def calculateResults_def Let_def)

section \<open>Comparing the two schemes\<close>




section \<open>Derived thresholds and the frame of a rate change\<close>

lemma js_index_array_set_same: "js_index (js_array_set xs i v) (int i) = v"
  by (simp add: js_index_def js_array_set_def nth_append)

lemma js_index_array_set_other:
  "j \<noteq> int i \<Longrightarrow> js_index (js_array_set xs i v) j = js_index xs j"
  by (auto simp add: js_index_def js_array_set_def nth_append nat_less_iff nth_list_update
      split: if_splits)

lemma dynamic_thresholds:
  "thresholds (monthly (dynamicTierConfig f x r))
     = [js_times (Num 3) (js_or_zero (f x)), js_times (Num 5) (js_or_zero (f x)),
        js_times (Num 10) (js_or_zero (f x))]"
  "thresholds (quarterly (dynamicTierConfig f x r))
     = [js_times (js_times (Num 3) (js_or_zero (f x))) (Num 3),
        js_times (js_times (Num 5) (js_or_zero (f x))) (Num 3),
        js_times (js_times (Num 10) (js_or_zero (f x))) (Num 3)]"
  by (simp_all only: dynamicTierConfig_def TIER_MULTIPLIERS_def Let_def list.map
      schemes.simps tier.simps)

lemma double_seven_tenths:
  "round_double (7 / 10) = Num (3152519739159347 / 4503599627370496)"
  by code_simp

lemma three_times_seven_tenths:
  "js_times (Num 3) (Num (3152519739159347 / 4503599627370496))
     = Num (1182194902184755 / 562949953421312)"
  by code_simp

lemma three_times_seven_tenths_times_three:
  "js_times (Num (1182194902184755 / 562949953421312)) (Num 3)
     = Num (3546584706554265 / 562949953421312)"
  by code_simp

lemma nine_times_seven_tenths:
  "js_times (Num 9) (Num (3152519739159347 / 4503599627370496))
     = Num (7093169413108531 / 1125899906842624)"
  by code_simp

text \<open>
  Claim C6, as stated: for every salary \<open>s\<close> the quarterly thresholds are 9, 15 and 30
  times \<open>s\<close>. The program computes each of them as \<open>(m * s) * 3\<close>, two products that
  are each rounded to a double. For the salary 0.7 (the double nearest to it) the first
  quarterly threshold is \<open>(3 * 0.7) * 3 = 6.299999999999999\<close>, one unit in the last place
  below \<open>9 * 0.7 = 6.3\<close>, and it is not the exact product either.
\<close>

theorem C6_quarterly_threshold_not_nine_times_salary:
  "round_double (7 / 10) = Num (3152519739159347 / 4503599627370496)
   \<and> hd (thresholds (quarterly
        (dynamicTierConfig Num (3152519739159347 / 4503599627370496) INITIAL_RATES)))
       = Num (3546584706554265 / 562949953421312)
   \<and> js_times (Num 9) (Num (3152519739159347 / 4503599627370496))
       = Num (7093169413108531 / 1125899906842624)
   \<and> thresholds (quarterly
        (dynamicTierConfig Num (3152519739159347 / 4503599627370496) INITIAL_RATES))
       \<noteq> [js_times (Num 9) (Num (3152519739159347 / 4503599627370496)),
           js_times (Num 15) (Num (3152519739159347 / 4503599627370496)),
           js_times (Num 30) (Num (3152519739159347 / 4503599627370496))]
   \<and> thresholds (quarterly
        (dynamicTierConfig Num (3152519739159347 / 4503599627370496) INITIAL_RATES))
       \<noteq> [Num (9 * (3152519739159347 / 4503599627370496)),
           Num (15 * (3152519739159347 / 4503599627370496)),
           Num (30 * (3152519739159347 / 4503599627370496))]"
proof -
  let ?d = "3152519739159347 / 4503599627370496 :: real"
  let ?q = "thresholds (quarterly (dynamicTierConfig Num ?d INITIAL_RATES))"
  have s: "js_or_zero (Num ?d) = Num ?d" by simp
  have h: "hd ?q = Num (3546584706554265 / 562949953421312)"
    by (simp only: dynamic_thresholds s three_times_seven_tenths
        three_times_seven_tenths_times_three list.sel)
  have n1: "hd ?q \<noteq> js_times (Num 9) (Num ?d)"
    unfolding h nine_times_seven_tenths by simp
  have n2: "hd ?q \<noteq> Num (9 * ?d)"
    unfolding h by simp
  have a: "?q \<noteq> [js_times (Num 9) (Num ?d), js_times (Num 15) (Num ?d), js_times (Num 30) (Num ?d)]"
  proof
    assume "?q = [js_times (Num 9) (Num ?d), js_times (Num 15) (Num ?d), js_times (Num 30) (Num ?d)]"
    then have "hd ?q = js_times (Num 9) (Num ?d)" by (simp only: list.sel)
    with n1 show False by simp
  qed
  have b: "?q \<noteq> [Num (9 * ?d), Num (15 * ?d), Num (30 * ?d)]"
  proof
    assume "?q = [Num (9 * ?d), Num (15 * ?d), Num (30 * ?d)]"
    then have "hd ?q = Num (9 * ?d)" by (simp only: list.sel)
    with n2 show False by simp
  qed
  show ?thesis
    by (intro conjI) (rule double_seven_tenths h nine_times_seven_tenths a b)+
qed

text \<open>
  Claim C6, amended: in the salary-relative variant the monthly thresholds are the double
  products of 3, 5 and 10 with the coerced salary, and each quarterly threshold is the double
  product of the corresponding monthly threshold with 3; they are 3, 5, 10 and 9, 15, 30
  times the salary whenever the salary is a non-negative integer with \<open>30 * s < 2 ^ 53\<close>,
  where no product is rounded. \<open>handleRateChange\<close> at index \<open>i\<close> of scheme \<open>t\<close>
  stores the new rate there, leaves every other index of that scheme and the whole other
  scheme as they were, and leaves the derived thresholds as they were.
\<close>

theorem C6_thresholds_and_rate_frame:
  "thresholds (monthly (dynamicTierConfig toNumber sal tr))
     = [js_times (Num 3) (js_or_zero (toNumber sal)), js_times (Num 5) (js_or_zero (toNumber sal)),
        js_times (Num 10) (js_or_zero (toNumber sal))]
   \<and> thresholds (quarterly (dynamicTierConfig toNumber sal tr))
     = [js_times (js_times (Num 3) (js_or_zero (toNumber sal))) (Num 3),
        js_times (js_times (Num 5) (js_or_zero (toNumber sal))) (Num 3),
        js_times (js_times (Num 10) (js_or_zero (toNumber sal))) (Num 3)]
   \<and> (0 \<le> n \<and> 30 * n < 2 ^ 53 \<longrightarrow>
        thresholds (monthly (dynamicTierConfig Num (of_int n) tr))
          = [Num (of_int (3 * n)), Num (of_int (5 * n)), Num (of_int (10 * n))]
      \<and> thresholds (quarterly (dynamicTierConfig Num (of_int n) tr))
          = [Num (of_int (9 * n)), Num (of_int (15 * n)), Num (of_int (30 * n))])
   \<and> js_index (at_scheme (handleRateChange t i v tr) t) (int i) = v
   \<and> (\<forall>j. j \<noteq> int i \<longrightarrow>
         js_index (at_scheme (handleRateChange t i v tr) t) j = js_index (at_scheme tr t) j)
   \<and> (\<forall>t'. t' \<noteq> t \<longrightarrow> at_scheme (handleRateChange t i v tr) t' = at_scheme tr t')
   \<and> (\<forall>t'. thresholds (at_scheme (dynamicTierConfig toNumber sal (handleRateChange t i v tr)) t')
         = thresholds (at_scheme (dynamicTierConfig toNumber sal tr) t'))"
proof -
  have int_sal: "0 \<le> n \<and> 30 * n < 2 ^ 53 \<longrightarrow>
        thresholds (monthly (dynamicTierConfig Num (of_int n) tr))
          = [Num (of_int (3 * n)), Num (of_int (5 * n)), Num (of_int (10 * n))]
      \<and> thresholds (quarterly (dynamicTierConfig Num (of_int n) tr))
          = [Num (of_int (9 * n)), Num (of_int (15 * n)), Num (of_int (30 * n))]"
    using thresholds_int_salary [of n tr] by blast
  have same: "js_index (at_scheme (handleRateChange t i v tr) t) (int i) = v"
    by (cases t) (simp_all add: handleRateChange_def js_index_array_set_same)
  have other: "\<forall>j. j \<noteq> int i \<longrightarrow>
         js_index (at_scheme (handleRateChange t i v tr) t) j = js_index (at_scheme tr t) j"
    by (cases t) (simp_all add: handleRateChange_def js_index_array_set_other)
  have frame: "\<forall>t'. t' \<noteq> t \<longrightarrow> at_scheme (handleRateChange t i v tr) t' = at_scheme tr t'"
  proof (intro allI impI)
    fix t' assume "t' \<noteq> t"
    then show "at_scheme (handleRateChange t i v tr) t' = at_scheme tr t'"
      by (cases t; cases t') (simp_all add: handleRateChange_def)
  qed
  have thr: "\<forall>t'. thresholds (at_scheme (dynamicTierConfig toNumber sal (handleRateChange t i v tr)) t')
         = thresholds (at_scheme (dynamicTierConfig toNumber sal tr) t')"
  proof
    fix t'
    show "thresholds (at_scheme (dynamicTierConfig toNumber sal (handleRateChange t i v tr)) t')
         = thresholds (at_scheme (dynamicTierConfig toNumber sal tr) t')"
      by (cases t') (simp_all only: at_scheme.simps dynamic_thresholds)
  qed
  show ?thesis
    by (intro conjI) (rule dynamic_thresholds int_sal same other frame thr)+
qed

theorem C6_thresholds_and_rate_frame_witness:
  "(0::int) \<le> 40000 \<and> (30::int) * 40000 < 2 ^ 53
   \<and> thresholds (monthly (dynamicTierConfig Num 40000 INITIAL_RATES))
       = [Num 120000, Num 200000, Num 400000]
   \<and> thresholds (quarterly (dynamicTierConfig Num 40000 INITIAL_RATES))
       = [Num 360000, Num 600000, Num 1200000]
   \<and> (0::int) \<noteq> int 1
   \<and> js_index (at_scheme (handleRateChange Monthly 1 (Num (7/100)) INITIAL_RATES) Monthly) (int 1)
       = Num (7/100)
   \<and> js_index (at_scheme (handleRateChange Monthly 1 (Num (7/100)) INITIAL_RATES) Monthly) 0
       = js_index (at_scheme INITIAL_RATES Monthly) 0
   \<and> Quarterly \<noteq> Monthly
   \<and> at_scheme (handleRateChange Monthly 1 (Num (7/100)) INITIAL_RATES) Quarterly
       = at_scheme INITIAL_RATES Quarterly"
proof -
  have h0: "(0::int) \<le> 40000 \<and> (30::int) * 40000 < 2 ^ 53" by simp
  have h1: "(0::int) \<noteq> int 1" and h2: "Quarterly \<noteq> Monthly" by simp_all
  note c = C6_thresholds_and_rate_frame [where toNumber = Num and sal = "40000::real"
      and tr = INITIAL_RATES and n = 40000 and t = Monthly and i = 1 and v = "Num (7/100)"]
  from c h0 have k: "thresholds (monthly (dynamicTierConfig Num (of_int 40000) INITIAL_RATES))
          = [Num (of_int (3 * 40000)), Num (of_int (5 * 40000)), Num (of_int (10 * 40000))]
      \<and> thresholds (quarterly (dynamicTierConfig Num (of_int 40000) INITIAL_RATES))
          = [Num (of_int (9 * 40000)), Num (of_int (15 * 40000)), Num (of_int (30 * 40000))]"
    by blast
  then have k1: "thresholds (monthly (dynamicTierConfig Num 40000 INITIAL_RATES))
       = [Num 120000, Num 200000, Num 400000]"
    and k2: "thresholds (quarterly (dynamicTierConfig Num 40000 INITIAL_RATES))
       = [Num 360000, Num 600000, Num 1200000]"
    by simp_all
  from c have k3: "js_index (at_scheme (handleRateChange Monthly 1 (Num (7/100)) INITIAL_RATES) Monthly)
      (int 1) = Num (7/100)"
    by blast
  from c h1 have k4: "js_index (at_scheme (handleRateChange Monthly 1 (Num (7/100)) INITIAL_RATES) Monthly) 0
       = js_index (at_scheme INITIAL_RATES Monthly) 0"
    by blast
  from c h2 have k5: "at_scheme (handleRateChange Monthly 1 (Num (7/100)) INITIAL_RATES) Quarterly
       = at_scheme INITIAL_RATES Quarterly"
    by blast
  have h0a: "(0::int) \<le> 40000" and h0b: "(30::int) * 40000 < 2 ^ 53" by simp_all
  show ?thesis
    by (intro conjI) (rule h0a h0b k1 k2 h1 k3 k4 h2 k5)+
qed

section \<open>The rate above the highest threshold\<close>

lemma bonusFrom_full_tier:
  assumes "0 \<le> r" and "lo \<le> u" and "u - lo \<le> r" and "js_index rs (int i) = Num a"
  shows "bonusFrom rs (Num u # ts) i (Num b) (Num r) (Num lo)
     = bonusFrom rs ts (Suc i) (Num (b + (u - lo) * a)) (Num (r - (u - lo))) (Num u)"
proof (cases "r \<le> 0")
  case True
  with assms(1,2,3) have "r = 0" and "u - lo = 0" by simp_all
  then show ?thesis by (simp add: bonusFrom_Cons bonusFrom_nonpos)
next
  case False
  then show ?thesis using assms(3,4) by (simp add: bonusFrom_Cons min_absorb2)
qed

lemma three_tiers:
  assumes "0 \<le> t1" and "t1 \<le> t2" and "t2 \<le> t3" and "t3 \<le> p"
    and "js_index rs 0 = Num ra" and "js_index rs 1 = Num rb" and "js_index rs 2 = Num rc"
  shows "bonusFrom rs [Num t1, Num t2, Num t3] 0 (Num 0) (Num p) (Num 0)
     = bonusFrom rs [] 3 (Num (t1 * ra + (t2 - t1) * rb + (t3 - t2) * rc)) (Num (p - t3)) (Num t3)"
proof -
  have i0: "js_index rs (int 0) = Num ra" and i1: "js_index rs (int (Suc 0)) = Num rb"
    and i2: "js_index rs (int (Suc (Suc 0))) = Num rc"
    using assms(5,6,7) by simp_all
  have p0: "0 \<le> p" and w0: "t1 - 0 \<le> p" using assms(1-4) by simp_all
  have p1: "0 \<le> p - (t1 - 0)" and w1: "t2 - t1 \<le> p - (t1 - 0)" using assms(1-4) by simp_all
  have p2: "0 \<le> p - (t1 - 0) - (t2 - t1)" and w2: "t3 - t2 \<le> p - (t1 - 0) - (t2 - t1)"
    using assms(1-4) by simp_all
  have "bonusFrom rs [Num t1, Num t2, Num t3] 0 (Num 0) (Num p) (Num 0)
      = bonusFrom rs [Num t2, Num t3] (Suc 0) (Num (0 + (t1 - 0) * ra)) (Num (p - (t1 - 0))) (Num t1)"
    by (rule bonusFrom_full_tier [OF p0 assms(1) w0 i0])
  also have "\<dots> = bonusFrom rs [Num t3] (Suc (Suc 0))
        (Num (0 + (t1 - 0) * ra + (t2 - t1) * rb)) (Num (p - (t1 - 0) - (t2 - t1))) (Num t2)"
    by (rule bonusFrom_full_tier [OF p1 assms(2) w1 i1])
  also have "\<dots> = bonusFrom rs [] (Suc (Suc (Suc 0)))
        (Num (0 + (t1 - 0) * ra + (t2 - t1) * rb + (t3 - t2) * rc))
        (Num (p - (t1 - 0) - (t2 - t1) - (t3 - t2))) (Num t3)"
    by (rule bonusFrom_full_tier [OF p2 assms(3) w2 i2])
  also have "\<dots> = bonusFrom rs [] 3 (Num (t1 * ra + (t2 - t1) * rb + (t3 - t2) * rc))
        (Num (p - t3)) (Num t3)"
    by (simp add: numeral_3_eq_3)
  finally show ?thesis .
qed

lemma four_rate_overflow:
  assumes "0 \<le> t1" and "t1 \<le> t2" and "t2 \<le> t3" and "t3 \<le> p"
    and "at_scheme cfg ty = \<lparr>thresholds = [Num t1, Num t2, Num t3],
                             rates = [Num ra, Num rb, Num rc, Num rd]\<rparr>"
  shows "calculateProgressiveBonus (Num p) ty cfg
     = Num (t1 * ra + (t2 - t1) * rb + (t3 - t2) * rc + (p - t3) * rd)"
proof -
  let ?rs = "[Num ra, Num rb, Num rc, Num rd]"
  have i: "js_index ?rs 0 = Num ra" "js_index ?rs 1 = Num rb" "js_index ?rs 2 = Num rc"
    "js_index ?rs (int (length ?rs) - 1) = Num rd"
    by (simp_all add: js_index_def)
  have "calculateProgressiveBonus (Num p) ty cfg
      = bonusFrom ?rs [Num t1, Num t2, Num t3] 0 (Num 0) (Num p) (Num 0)"
    by (simp add: calculateProgressiveBonus_bonusFrom assms(5))
  also have "\<dots> = bonusFrom ?rs [] 3 (Num (t1 * ra + (t2 - t1) * rb + (t3 - t2) * rc))
      (Num (p - t3)) (Num t3)"
    by (rule three_tiers [OF assms(1-4) i(1-3)])
  also have "\<dots> = Num (t1 * ra + (t2 - t1) * rb + (t3 - t2) * rc + (p - t3) * rd)"
    unfolding bonusFrom_Nil i(4) using assms(4) by auto
  finally show ?thesis .
qed

lemma three_rate_overflow:
  assumes "0 \<le> t1" and "t1 \<le> t2" and "t2 \<le> t3" and "t3 \<le> p"
    and "at_scheme cfg ty = \<lparr>thresholds = [Num t1, Num t2, Num t3],
                             rates = [Num ra, Num rb, Num rc]\<rparr>"
  shows "calculateProgressiveBonus (Num p) ty cfg
     = Num (t1 * ra + (t2 - t1) * rb + (t3 - t2) * rc + (p - t3) * rc)"
proof -
  let ?rs = "[Num ra, Num rb, Num rc]"
  have i: "js_index ?rs 0 = Num ra" "js_index ?rs 1 = Num rb" "js_index ?rs 2 = Num rc"
    "js_index ?rs (int (length ?rs) - 1) = Num rc"
    by (simp_all add: js_index_def)
  have "calculateProgressiveBonus (Num p) ty cfg
      = bonusFrom ?rs [Num t1, Num t2, Num t3] 0 (Num 0) (Num p) (Num 0)"
    by (simp add: calculateProgressiveBonus_bonusFrom assms(5))
  also have "\<dots> = bonusFrom ?rs [] 3 (Num (t1 * ra + (t2 - t1) * rb + (t3 - t2) * rc))
      (Num (p - t3)) (Num t3)"
    by (rule three_tiers [OF assms(1-4) i(1-3)])
  also have "\<dots> = Num (t1 * ra + (t2 - t1) * rb + (t3 - t2) * rc + (p - t3) * rc)"
    unfolding bonusFrom_Nil i(4) using assms(4) by auto
  finally show ?thesis .
qed

lemma row_index_tierRows: "k < 4 \<Longrightarrow> row_index (tierRows rs ! k) = k"
proof -
  assume "k < 4"
  then have "k = 0 \<or> k = 1 \<or> k = 2 \<or> k = 3" by arith
  then show ?thesis by (auto simp: tierRows_def)
qed

lemma row_index_tierRows_fixed: "k < 3 \<Longrightarrow> row_index (tierRows_fixed rs ! k) = k"
proof -
  assume "k < 3"
  then have "k = 0 \<or> k = 1 \<or> k = 2" by arith
  then show ?thesis by (auto simp: tierRows_fixed_def)
qed

text \<open>
  Claim C7, as stated: in every variant the rates are one more than the thresholds, and the
  rate paid above the highest threshold is an entry of its own. In the fixed-threshold variant
  there are three rates for three thresholds, and the overflow is paid at \<open>rates[2]\<close>, the
  rate of the third bounded tier: setting that rate to 0 also removes the 5000 paid on the
  50000 above the highest threshold of a performance of 450000.
\<close>

theorem C7_fixed_variant_shares_top_rate:
  "length (rates (monthly INITIAL_TIER_CONFIG)) \<noteq> length (thresholds (monthly INITIAL_TIER_CONFIG)) + 1
   \<and> length (rates (quarterly INITIAL_TIER_CONFIG)) \<noteq> length (thresholds (quarterly INITIAL_TIER_CONFIG)) + 1
   \<and> calculateProgressiveBonus (Num 450000) Monthly INITIAL_TIER_CONFIG = Num 32600
   \<and> calculateProgressiveBonus (Num 450000) Monthly
        (handleRateChange_fixed Monthly 2 (Num 0) INITIAL_TIER_CONFIG) = Num 7600"
  by (simp add: calculateProgressiveBonus_def INITIAL_TIER_CONFIG_def handleRateChange_fixed_def
      js_array_set_def js_index_def)

text \<open>
  Claim C7, amended: in the salary-relative variant the rates are one more than the
  thresholds, the fourth table row edits \<open>rates[3]\<close>, and with three thresholds and four
  rates performance above the highest threshold is paid at \<open>rates[3]\<close>; in the
  fixed-threshold variant the rates are as many as the thresholds, the fourth table row shows
  \<open>rates[2]\<close> and carries index 2, and with three thresholds and three rates performance
  above the highest threshold is paid at \<open>rates[2]\<close>, the third tier's rate.
\<close>

theorem C7_top_rate:
  "length (rates (at_scheme (dynamicTierConfig toNumber sal INITIAL_RATES) ty))
     = length (thresholds (at_scheme (dynamicTierConfig toNumber sal INITIAL_RATES) ty)) + 1
   \<and> map row_index (tierRows rs) = [0, 1, 2, 3]
   \<and> (0 \<le> ta \<and> ta \<le> tb \<and> tb \<le> tc \<and> tc \<le> p
        \<and> at_scheme cfg ty = \<lparr>thresholds = [Num ta, Num tb, Num tc],
                                rates = [Num ra, Num rb, Num rc, Num rd]\<rparr> \<longrightarrow>
        calculateProgressiveBonus (Num p) ty cfg
        = Num (ta * ra + (tb - ta) * rb + (tc - tb) * rc + (p - tc) * rd))
   \<and> length (rates (at_scheme INITIAL_TIER_CONFIG ty))
       = length (thresholds (at_scheme INITIAL_TIER_CONFIG ty))
   \<and> map row_index (tierRows_fixed rs) = [0, 1, 2, 2]
   \<and> row_rate (tierRows_fixed rs ! 3) = row_rate (tierRows_fixed rs ! 2)
   \<and> (0 \<le> ta \<and> ta \<le> tb \<and> tb \<le> tc \<and> tc \<le> p
        \<and> at_scheme cfg' ty = \<lparr>thresholds = [Num ta, Num tb, Num tc],
                                 rates = [Num ra, Num rb, Num rc]\<rparr> \<longrightarrow>
        calculateProgressiveBonus (Num p) ty cfg'
        = Num (ta * ra + (tb - ta) * rb + (tc - tb) * rc + (p - tc) * rc))"
proof -
  have a: "length (rates (at_scheme (dynamicTierConfig toNumber sal INITIAL_RATES) ty))
     = length (thresholds (at_scheme (dynamicTierConfig toNumber sal INITIAL_RATES) ty)) + 1"
    by (cases ty) (simp_all add: dynamicTierConfig_def INITIAL_RATES_def TIER_MULTIPLIERS_def Let_def)
  have b: "length (rates (at_scheme INITIAL_TIER_CONFIG ty))
       = length (thresholds (at_scheme INITIAL_TIER_CONFIG ty))"
    by (cases ty) (simp_all add: INITIAL_TIER_CONFIG_def)
  have c: "map row_index (tierRows rs) = [0, 1, 2, 3]"
    "map row_index (tierRows_fixed rs) = [0, 1, 2, 2]"
    "row_rate (tierRows_fixed rs ! 3) = row_rate (tierRows_fixed rs ! 2)"
    by (simp_all add: tierRows_def tierRows_fixed_def)
  have d: "0 \<le> ta \<and> ta \<le> tb \<and> tb \<le> tc \<and> tc \<le> p
        \<and> at_scheme cfg ty = \<lparr>thresholds = [Num ta, Num tb, Num tc],
                                rates = [Num ra, Num rb, Num rc, Num rd]\<rparr> \<longrightarrow>
        calculateProgressiveBonus (Num p) ty cfg
        = Num (ta * ra + (tb - ta) * rb + (tc - tb) * rc + (p - tc) * rd)"
    using four_rate_overflow [of ta tb tc p cfg ty ra rb rc rd] by blast
  have e: "0 \<le> ta \<and> ta \<le> tb \<and> tb \<le> tc \<and> tc \<le> p
        \<and> at_scheme cfg' ty = \<lparr>thresholds = [Num ta, Num tb, Num tc],
                                 rates = [Num ra, Num rb, Num rc]\<rparr> \<longrightarrow>
        calculateProgressiveBonus (Num p) ty cfg'
        = Num (ta * ra + (tb - ta) * rb + (tc - tb) * rc + (p - tc) * rc)"
    using three_rate_overflow [of ta tb tc p cfg' ty ra rb rc] by blast
  show ?thesis
    by (intro conjI) (rule a b c d e)+
qed

theorem C7_top_rate_witness:
  "(0::real) \<le> 120000 \<and> (120000::real) \<le> 200000 \<and> (200000::real) \<le> 400000
   \<and> (400000::real) \<le> 500000
   \<and> at_scheme (dynamicTierConfig Num 40000 INITIAL_RATES) Monthly
       = \<lparr>thresholds = [Num 120000, Num 200000, Num 400000],
          rates = [Num (3/100), Num (5/100), Num (10/100), Num (15/100)]\<rparr>
   \<and> calculateProgressiveBonus (Num 500000) Monthly (dynamicTierConfig Num 40000 INITIAL_RATES)
       = Num 42600
   \<and> at_scheme INITIAL_TIER_CONFIG Monthly
       = \<lparr>thresholds = [Num 120000, Num 200000, Num 400000],
          rates = [Num (3/100), Num (5/100), Num (10/100)]\<rparr>
   \<and> calculateProgressiveBonus (Num 500000) Monthly INITIAL_TIER_CONFIG = Num 37600"
proof -
  have h: "(0::real) \<le> 120000" "(120000::real) \<le> 200000" "(200000::real) \<le> 400000"
    "(400000::real) \<le> 500000"
    by simp_all
  have r: "rates (monthly (dynamicTierConfig Num 40000 INITIAL_RATES))
      = [Num (3/100), Num (5/100), Num (10/100), Num (15/100)]"
    by (simp add: dynamicTierConfig_def INITIAL_RATES_def Let_def)
  have c4: "at_scheme (dynamicTierConfig Num 40000 INITIAL_RATES) Monthly
       = \<lparr>thresholds = [Num 120000, Num 200000, Num 400000],
          rates = [Num (3/100), Num (5/100), Num (10/100), Num (15/100)]\<rparr>"
    using thresholds_40000(1) [of INITIAL_RATES] r by simp
  have c3: "at_scheme INITIAL_TIER_CONFIG Monthly
       = \<lparr>thresholds = [Num 120000, Num 200000, Num 400000],
          rates = [Num (3/100), Num (5/100), Num (10/100)]\<rparr>"
    by (simp add: INITIAL_TIER_CONFIG_def)
  note c = C7_top_rate [where ta = 120000 and tb = 200000 and tc = 400000 and p = 500000
      and ra = "3/100" and rb = "5/100" and rc = "10/100" and rd = "15/100"
      and cfg = "dynamicTierConfig Num 40000 INITIAL_RATES" and cfg' = INITIAL_TIER_CONFIG
      and ty = Monthly and toNumber = Num and sal = "0::real" and rs = "[]"]
  from c h c4 have k1: "calculateProgressiveBonus (Num 500000) Monthly
      (dynamicTierConfig Num 40000 INITIAL_RATES)
      = Num (120000 * (3/100) + (200000 - 120000) * (5/100) + (400000 - 200000) * (10/100)
          + (500000 - 400000) * (15/100))"
    by blast
  from c h c3 have k2: "calculateProgressiveBonus (Num 500000) Monthly INITIAL_TIER_CONFIG
      = Num (120000 * (3/100) + (200000 - 120000) * (5/100) + (400000 - 200000) * (10/100)
          + (500000 - 400000) * (10/100))"
    by blast
  from k1 have k1': "calculateProgressiveBonus (Num 500000) Monthly
      (dynamicTierConfig Num 40000 INITIAL_RATES) = Num 42600"
    by simp
  from k2 have k2': "calculateProgressiveBonus (Num 500000) Monthly INITIAL_TIER_CONFIG = Num 37600"
    by simp
  show ?thesis
    by (intro conjI) (rule h c4 c3 k1' k2')+
qed

section \<open>Malformed performance input\<close>

lemma calculateProgressiveBonus_zero: "calculateProgressiveBonus (Num 0) ty cfg = Num 0"
  by (simp add: calculateProgressiveBonus_bonusFrom bonusFrom_nonpos)

text \<open>
  Claim C8: a performance field whose conversion to a number is \<open>NaN\<close> is coerced to 0
  by the caller (\<open>Number(perf) || 0\<close>) before the calculator is called: its monthly bonus
  is 0, it adds nothing to the quarterly performance, and the result is the one an entry of 0
  in that field gives. No branch rejects it: in the salary-relative variant the field counts
  as 0 in the guard that sets no result when all three performances are 0, and otherwise the
  same result is set.
\<close>

theorem C8_malformed_performance_is_zero:
  assumes "toNumber v = NaN"
  shows "js_or_zero (toNumber v) = Num 0
    \<and> bonus1 (monthly_res (calculateResults toNumber (pd\<lparr>perf1 := v\<rparr>) cfg)) = Num 0
    \<and> bonus2 (monthly_res (calculateResults toNumber (pd\<lparr>perf2 := v\<rparr>) cfg)) = Num 0
    \<and> bonus3 (monthly_res (calculateResults toNumber (pd\<lparr>perf3 := v\<rparr>) cfg)) = Num 0
    \<and> totalPerf (quarterly_res (calculateResults toNumber (pd\<lparr>perf1 := v\<rparr>) cfg))
        = js_add (js_or_zero (toNumber (perf2 pd))) (js_or_zero (toNumber (perf3 pd)))
    \<and> totalPerf (quarterly_res (calculateResults toNumber (pd\<lparr>perf2 := v\<rparr>) cfg))
        = js_add (js_or_zero (toNumber (perf1 pd))) (js_or_zero (toNumber (perf3 pd)))
    \<and> totalPerf (quarterly_res (calculateResults toNumber (pd\<lparr>perf3 := v\<rparr>) cfg))
        = js_add (js_or_zero (toNumber (perf1 pd))) (js_or_zero (toNumber (perf2 pd)))
    \<and> calculatorEffect toNumber (pd\<lparr>perf1 := v\<rparr>) cfg
        = (if js_or_zero (toNumber (perf2 pd)) = Num 0 \<and> js_or_zero (toNumber (perf3 pd)) = Num 0
           then None else Some (calculateResults toNumber (pd\<lparr>perf1 := v\<rparr>) cfg))
    \<and> calculatorEffect toNumber (pd\<lparr>perf2 := v\<rparr>) cfg
        = (if js_or_zero (toNumber (perf1 pd)) = Num 0 \<and> js_or_zero (toNumber (perf3 pd)) = Num 0
           then None else Some (calculateResults toNumber (pd\<lparr>perf2 := v\<rparr>) cfg))
    \<and> calculatorEffect toNumber (pd\<lparr>perf3 := v\<rparr>) cfg
        = (if js_or_zero (toNumber (perf1 pd)) = Num 0 \<and> js_or_zero (toNumber (perf2 pd)) = Num 0
           then None else Some (calculateResults toNumber (pd\<lparr>perf3 := v\<rparr>) cfg))
    \<and> (toNumber z = Num 0 \<longrightarrow>
          calculateResults toNumber (pd\<lparr>perf1 := v\<rparr>) cfg
            = calculateResults toNumber (pd\<lparr>perf1 := z\<rparr>) cfg
        \<and> calculateResults toNumber (pd\<lparr>perf2 := v\<rparr>) cfg
            = calculateResults toNumber (pd\<lparr>perf2 := z\<rparr>) cfg
        \<and> calculateResults toNumber (pd\<lparr>perf3 := v\<rparr>) cfg
            = calculateResults toNumber (pd\<lparr>perf3 := z\<rparr>) cfg)"
proof -
  have z: "js_or_zero (toNumber v) = Num 0" using assms by simp
  have b: "bonus1 (monthly_res (calculateResults toNumber (pd\<lparr>perf1 := v\<rparr>) cfg)) = Num 0"
    "bonus2 (monthly_res (calculateResults toNumber (pd\<lparr>perf2 := v\<rparr>) cfg)) = Num 0"
    "bonus3 (monthly_res (calculateResults toNumber (pd\<lparr>perf3 := v\<rparr>) cfg)) = Num 0"
    by (simp_all add: calculateResults_def Let_def z calculateProgressiveBonus_zero)
  have t: "totalPerf (quarterly_res (calculateResults toNumber (pd\<lparr>perf1 := v\<rparr>) cfg))
        = js_add (js_or_zero (toNumber (perf2 pd))) (js_or_zero (toNumber (perf3 pd)))"
    "totalPerf (quarterly_res (calculateResults toNumber (pd\<lparr>perf2 := v\<rparr>) cfg))
        = js_add (js_or_zero (toNumber (perf1 pd))) (js_or_zero (toNumber (perf3 pd)))"
    "totalPerf (quarterly_res (calculateResults toNumber (pd\<lparr>perf3 := v\<rparr>) cfg))
        = js_add (js_or_zero (toNumber (perf1 pd))) (js_or_zero (toNumber (perf2 pd)))"
    by (simp_all add: calculateResults_def Let_def z)
  have e: "calculatorEffect toNumber (pd\<lparr>perf1 := v\<rparr>) cfg
        = (if js_or_zero (toNumber (perf2 pd)) = Num 0 \<and> js_or_zero (toNumber (perf3 pd)) = Num 0
           then None else Some (calculateResults toNumber (pd\<lparr>perf1 := v\<rparr>) cfg))"
    "calculatorEffect toNumber (pd\<lparr>perf2 := v\<rparr>) cfg
        = (if js_or_zero (toNumber (perf1 pd)) = Num 0 \<and> js_or_zero (toNumber (perf3 pd)) = Num 0
           then None else Some (calculateResults toNumber (pd\<lparr>perf2 := v\<rparr>) cfg))"
    "calculatorEffect toNumber (pd\<lparr>perf3 := v\<rparr>) cfg
        = (if js_or_zero (toNumber (perf1 pd)) = Num 0 \<and> js_or_zero (toNumber (perf2 pd)) = Num 0
           then None else Some (calculateResults toNumber (pd\<lparr>perf3 := v\<rparr>) cfg))"
    by (simp_all add: calculatorEffect_calculateResults z)
  have s: "toNumber z = Num 0 \<longrightarrow>
          calculateResults toNumber (pd\<lparr>perf1 := v\<rparr>) cfg
            = calculateResults toNumber (pd\<lparr>perf1 := z\<rparr>) cfg
        \<and> calculateResults toNumber (pd\<lparr>perf2 := v\<rparr>) cfg
            = calculateResults toNumber (pd\<lparr>perf2 := z\<rparr>) cfg
        \<and> calculateResults toNumber (pd\<lparr>perf3 := v\<rparr>) cfg
            = calculateResults toNumber (pd\<lparr>perf3 := z\<rparr>) cfg"
    by (simp add: calculateResults_def Let_def z)
  show ?thesis
    by (intro conjI) (rule z b t e s)+
qed

theorem C8_malformed_performance_is_zero_witness:
  "(\<lambda>s. if s = ''150000'' then Num 150000 else if s = ''0'' then Num 0 else NaN) ''abc'' = NaN
   \<and> (\<lambda>s. if s = ''150000'' then Num 150000 else if s = ''0'' then Num 0 else NaN) ''0'' = Num 0
   \<and> bonus1 (monthly_res (calculateResults
        (\<lambda>s. if s = ''150000'' then Num 150000 else if s = ''0'' then Num 0 else NaN)
        \<lparr>perf1 = ''abc'', perf2 = ''150000'', perf3 = ''150000''\<rparr> INITIAL_TIER_CONFIG)) = Num 0
   \<and> totalPerf (quarterly_res (calculateResults
        (\<lambda>s. if s = ''150000'' then Num 150000 else if s = ''0'' then Num 0 else NaN)
        \<lparr>perf1 = ''abc'', perf2 = ''150000'', perf3 = ''150000''\<rparr> INITIAL_TIER_CONFIG))
      = Num 300000
   \<and> calculateResults
        (\<lambda>s. if s = ''150000'' then Num 150000 else if s = ''0'' then Num 0 else NaN)
        \<lparr>perf1 = ''abc'', perf2 = ''150000'', perf3 = ''150000''\<rparr> INITIAL_TIER_CONFIG
      = calculateResults
        (\<lambda>s. if s = ''150000'' then Num 150000 else if s = ''0'' then Num 0 else NaN)
        \<lparr>perf1 = ''0'', perf2 = ''150000'', perf3 = ''150000''\<rparr> INITIAL_TIER_CONFIG"
proof -
  let ?conv = "\<lambda>s. if s = ''150000'' then Num 150000 else if s = ''0'' then Num 0 else NaN"
  let ?pd = "\<lparr>perf1 = ''x'', perf2 = ''150000'', perf3 = ''150000''\<rparr>"
  have h1: "?conv ''abc'' = NaN" and h2: "?conv ''0'' = Num 0" by simp_all
  note c = C8_malformed_performance_is_zero [where toNumber = ?conv and v = "''abc''"
      and z = "''0''" and pd = ?pd and cfg = INITIAL_TIER_CONFIG, OF h1]
  from c have k1: "bonus1 (monthly_res (calculateResults ?conv (?pd\<lparr>perf1 := ''abc''\<rparr>)
      INITIAL_TIER_CONFIG)) = Num 0"
    by blast
  from c have k2: "totalPerf (quarterly_res (calculateResults ?conv (?pd\<lparr>perf1 := ''abc''\<rparr>)
      INITIAL_TIER_CONFIG))
      = js_add (js_or_zero (?conv (perf2 ?pd))) (js_or_zero (?conv (perf3 ?pd)))"
    by blast
  from c h2 have k3: "calculateResults ?conv (?pd\<lparr>perf1 := ''abc''\<rparr>) INITIAL_TIER_CONFIG
      = calculateResults ?conv (?pd\<lparr>perf1 := ''0''\<rparr>) INITIAL_TIER_CONFIG"
    by blast
  have u: "?pd\<lparr>perf1 := ''abc''\<rparr> = \<lparr>perf1 = ''abc'', perf2 = ''150000'', perf3 = ''150000''\<rparr>"
    "?pd\<lparr>perf1 := ''0''\<rparr> = \<lparr>perf1 = ''0'', perf2 = ''150000'', perf3 = ''150000''\<rparr>"
    by simp_all
  have t: "js_add (js_or_zero (?conv (perf2 ?pd))) (js_or_zero (?conv (perf3 ?pd))) = Num 300000"
    by simp
  from k1 k2 k3 h1 h2 show ?thesis unfolding u t by (intro conjI)
qed

section \<open>A salary of zero\<close>



section \<open>Rates stay non-negative\<close>

lemma guard_cases:
  "(\<not> isNaN x \<and> js_ge x 0) = ((\<exists>a. x = Num a \<and> 0 \<le> a) \<or> x = PInf)"
  by (cases x) (simp_all add: js_ge_def)

lemma js_div100_ge0: "js_ge x 0 \<Longrightarrow> js_ge (js_div100 x) 0"
  by (cases x) (simp_all add: js_ge_def)

lemma js_array_set_in_range:
  assumes "i < length xs" and "list_all P xs" and "P v"
  shows "length (js_array_set xs i v) = length xs \<and> list_all P (js_array_set xs i v)"
proof -
  have "set (xs[i := v]) \<subseteq> insert v (set xs)" by (rule set_update_subset_insert)
  with assms(2,3) have "list_all P (xs[i := v])" by (auto simp: list_all_iff)
  with assms(1) show ?thesis by (simp add: js_array_set_def)
qed

lemma handleInputChange_ignored:
  assumes "\<not> (\<not> isNaN (parseFloat inp) \<and> js_ge (parseFloat inp) 0)"
  shows "handleInputChange parseFloat onRateChange ty i inp st = st"
  using assms by (auto simp add: handleInputChange_def Let_def)

lemma handleInputChange_applied:
  assumes "\<not> isNaN (parseFloat inp) \<and> js_ge (parseFloat inp) 0"
  shows "handleInputChange parseFloat onRateChange ty i inp st
     = onRateChange ty i (js_div100 (parseFloat inp)) st"
  using assms by (simp add: handleInputChange_def Let_def)

lemma tableEdit_cases:
  "tableEdit parseFloat (ty, k, inp) st =
     (if k < 4 \<and> \<not> isNaN (parseFloat inp) \<and> js_ge (parseFloat inp) 0
      then handleRateChange ty k (js_div100 (parseFloat inp)) st else st)"
proof (cases "k < 4")
  case True
  then show ?thesis
    by (simp add: tableEdit_def handleInputChange_def Let_def row_index_tierRows)
      (simp add: tierRows_def)
next
  case False
  then show ?thesis by (simp add: tableEdit_def tierRows_def)
qed

lemma tableEdit_fixed_cases:
  "tableEdit_fixed parseFloat (ty, k, inp) st =
     (if k < 3 \<and> \<not> isNaN (parseFloat inp) \<and> js_ge (parseFloat inp) 0
      then handleRateChange_fixed ty k (js_div100 (parseFloat inp)) st else st)"
proof (cases "k < 3")
  case True
  then show ?thesis
    by (simp add: tableEdit_fixed_def handleInputChange_def Let_def row_index_tierRows_fixed)
      (simp add: tierRows_fixed_def)
next
  case False
  have len: "length (tierRows_fixed (rates (at_scheme st ty))) = 4"
    by (simp add: tierRows_fixed_def)
  from False have "3 \<le> k" by simp
  then show ?thesis using False by (auto simp add: tableEdit_fixed_def Let_def len)
qed

lemma handleRateChange_invariant:
  assumes "length (monthly st) = 4" and "length (quarterly st) = 4"
    and "list_all (\<lambda>r. js_ge r 0) (monthly st)" and "list_all (\<lambda>r. js_ge r 0) (quarterly st)"
    and "k < 4" and "js_ge v 0"
  shows "length (monthly (handleRateChange ty k v st)) = 4
    \<and> length (quarterly (handleRateChange ty k v st)) = 4
    \<and> list_all (\<lambda>r. js_ge r 0) (monthly (handleRateChange ty k v st))
    \<and> list_all (\<lambda>r. js_ge r 0) (quarterly (handleRateChange ty k v st))"
proof (cases ty)
  case Monthly
  have "k < length (monthly st)" using assms(1,5) by simp
  from js_array_set_in_range [OF this assms(3), of v] assms
  show ?thesis by (simp add: handleRateChange_def Monthly)
next
  case Quarterly
  have "k < length (quarterly st)" using assms(2,5) by simp
  from js_array_set_in_range [OF this assms(4), of v] assms
  show ?thesis by (simp add: handleRateChange_def Quarterly)
qed

lemma handleRateChange_fixed_invariant:
  assumes "length (rates (monthly st)) = 3" and "length (rates (quarterly st)) = 3"
    and "list_all (\<lambda>r. js_ge r 0) (rates (monthly st))"
    and "list_all (\<lambda>r. js_ge r 0) (rates (quarterly st))"
    and "k < 3" and "js_ge v 0"
  shows "length (rates (monthly (handleRateChange_fixed ty k v st))) = 3
    \<and> length (rates (quarterly (handleRateChange_fixed ty k v st))) = 3
    \<and> list_all (\<lambda>r. js_ge r 0) (rates (monthly (handleRateChange_fixed ty k v st)))
    \<and> list_all (\<lambda>r. js_ge r 0) (rates (quarterly (handleRateChange_fixed ty k v st)))"
proof (cases ty)
  case Monthly
  have "k < length (rates (monthly st))" using assms(1,5) by simp
  from js_array_set_in_range [OF this assms(3), of v] assms
  show ?thesis by (simp add: handleRateChange_fixed_def Monthly)
next
  case Quarterly
  have "k < length (rates (quarterly st))" using assms(2,5) by simp
  from js_array_set_in_range [OF this assms(4), of v] assms
  show ?thesis by (simp add: handleRateChange_fixed_def Quarterly)
qed

lemma tableEdit_invariant:
  assumes "length (monthly st) = 4" and "length (quarterly st) = 4"
    and "list_all (\<lambda>r. js_ge r 0) (monthly st)" and "list_all (\<lambda>r. js_ge r 0) (quarterly st)"
  shows "length (monthly (tableEdit parseFloat e st)) = 4
    \<and> length (quarterly (tableEdit parseFloat e st)) = 4
    \<and> list_all (\<lambda>r. js_ge r 0) (monthly (tableEdit parseFloat e st))
    \<and> list_all (\<lambda>r. js_ge r 0) (quarterly (tableEdit parseFloat e st))"
proof -
  obtain ty k inp where e: "e = (ty, k, inp)" by (cases e) auto
  show ?thesis
  proof (cases "k < 4 \<and> \<not> isNaN (parseFloat inp) \<and> js_ge (parseFloat inp) 0")
    case True
    then have k: "k < 4" and v: "js_ge (js_div100 (parseFloat inp)) 0"
      by (simp_all add: js_div100_ge0)
    from handleRateChange_invariant [OF assms k v, of ty] True show ?thesis
      by (simp add: e tableEdit_cases)
  next
    case False
    then have "tableEdit parseFloat e st = st" unfolding e tableEdit_cases by (rule if_not_P)
    with assms show ?thesis by simp
  qed
qed

lemma tableEdit_fixed_invariant:
  assumes "length (rates (monthly st)) = 3" and "length (rates (quarterly st)) = 3"
    and "list_all (\<lambda>r. js_ge r 0) (rates (monthly st))"
    and "list_all (\<lambda>r. js_ge r 0) (rates (quarterly st))"
  shows "length (rates (monthly (tableEdit_fixed parseFloat e st))) = 3
    \<and> length (rates (quarterly (tableEdit_fixed parseFloat e st))) = 3
    \<and> list_all (\<lambda>r. js_ge r 0) (rates (monthly (tableEdit_fixed parseFloat e st)))
    \<and> list_all (\<lambda>r. js_ge r 0) (rates (quarterly (tableEdit_fixed parseFloat e st)))"
proof -
  obtain ty k inp where e: "e = (ty, k, inp)" by (cases e) auto
  show ?thesis
  proof (cases "k < 3 \<and> \<not> isNaN (parseFloat inp) \<and> js_ge (parseFloat inp) 0")
    case True
    then have k: "k < 3" and v: "js_ge (js_div100 (parseFloat inp)) 0"
      by (simp_all add: js_div100_ge0)
    from handleRateChange_fixed_invariant [OF assms k v, of ty] True show ?thesis
      by (simp add: e tableEdit_fixed_cases)
  next
    case False
    then have "tableEdit_fixed parseFloat e st = st" unfolding e tableEdit_fixed_cases by (rule if_not_P)
    with assms show ?thesis by simp
  qed
qed

lemma tableEdits_invariant:
  "length (monthly st) = 4 \<Longrightarrow> length (quarterly st) = 4 \<Longrightarrow>
   list_all (\<lambda>r. js_ge r 0) (monthly st) \<Longrightarrow> list_all (\<lambda>r. js_ge r 0) (quarterly st) \<Longrightarrow>
   list_all (\<lambda>r. js_ge r 0) (monthly (foldl (\<lambda>s e. tableEdit parseFloat e s) st edits))
   \<and> list_all (\<lambda>r. js_ge r 0) (quarterly (foldl (\<lambda>s e. tableEdit parseFloat e s) st edits))"
proof (induction edits arbitrary: st)
  case Nil
  then show ?case by simp
next
  case (Cons e edits)
  from tableEdit_invariant [OF Cons.prems, of parseFloat e]
  have "length (monthly (tableEdit parseFloat e st)) = 4"
    "length (quarterly (tableEdit parseFloat e st)) = 4"
    "list_all (\<lambda>r. js_ge r 0) (monthly (tableEdit parseFloat e st))"
    "list_all (\<lambda>r. js_ge r 0) (quarterly (tableEdit parseFloat e st))"
    by simp_all
  from Cons.IH [OF this] show ?case by simp
qed

lemma tableEdits_fixed_invariant:
  "length (rates (monthly st)) = 3 \<Longrightarrow> length (rates (quarterly st)) = 3 \<Longrightarrow>
   list_all (\<lambda>r. js_ge r 0) (rates (monthly st)) \<Longrightarrow>
   list_all (\<lambda>r. js_ge r 0) (rates (quarterly st)) \<Longrightarrow>
   list_all (\<lambda>r. js_ge r 0) (rates (monthly (foldl (\<lambda>s e. tableEdit_fixed parseFloat e s) st edits)))
   \<and> list_all (\<lambda>r. js_ge r 0) (rates (quarterly (foldl (\<lambda>s e. tableEdit_fixed parseFloat e s) st edits)))"
proof (induction edits arbitrary: st)
  case Nil
  then show ?case by simp
next
  case (Cons e edits)
  from tableEdit_fixed_invariant [OF Cons.prems, of parseFloat e]
  have "length (rates (monthly (tableEdit_fixed parseFloat e st))) = 3"
    "length (rates (quarterly (tableEdit_fixed parseFloat e st))) = 3"
    "list_all (\<lambda>r. js_ge r 0) (rates (monthly (tableEdit_fixed parseFloat e st)))"
    "list_all (\<lambda>r. js_ge r 0) (rates (quarterly (tableEdit_fixed parseFloat e st)))"
    by simp_all
  from Cons.IH [OF this] show ?case by simp
qed

text \<open>
  Claim C10, as stated: a rate edit is applied only when the entered text parses to a finite
  number that is at least 0. The guard is \<open>!isNaN(newRate) && newRate >= 0\<close>, which
  \<open>Infinity\<close> passes: an entry such as \<open>1e999\<close>, which \<open>parseFloat\<close> turns into
  \<open>Infinity\<close>, is applied and stored as the rate \<open>Infinity\<close>.
\<close>

theorem C10_infinite_entry_is_applied:
  "(\<lambda>s. if s = ''1e999'' then PInf else NaN) ''1e999'' = PInf
   \<and> \<not> js_finite ((\<lambda>s. if s = ''1e999'' then PInf else NaN) ''1e999'')
   \<and> handleInputChange (\<lambda>s. if s = ''1e999'' then PInf else NaN) handleRateChange
        Monthly 0 ''1e999'' INITIAL_RATES
      = \<lparr>monthly = [PInf, Num (5/100), Num (10/100), Num (15/100)],
         quarterly = [Num (3/100), Num (5/100), Num (10/100), Num (15/100)]\<rparr>
   \<and> handleInputChange (\<lambda>s. if s = ''1e999'' then PInf else NaN) handleRateChange
        Monthly 0 ''1e999'' INITIAL_RATES \<noteq> INITIAL_RATES"
  by (simp add: handleInputChange_def handleRateChange_def js_array_set_def INITIAL_RATES_def
      js_ge_def)

text \<open>
  Claim C10, amended: \<open>handleInputChange\<close> passes an entry on to \<open>onRateChange\<close>
  (divided by 100) exactly when the entered text parses to a number that is not \<open>NaN\<close> and
  is at least 0: a finite number that is at least 0, or \<open>Infinity\<close>. An entry that parses
  to \<open>NaN\<close>, to a negative number or to \<open>-Infinity\<close> leaves the state as it was. Hence,
  from the initial rates of either variant, every rate of both schemes is at least 0 (a finite
  number or \<open>Infinity\<close>, never \<open>NaN\<close>) after any sequence of edits in the tier tables.
\<close>

theorem C10_rates_stay_nonnegative:
  "((parseFloat inp = NaN \<or> parseFloat inp = NInf \<or> (\<exists>a. parseFloat inp = Num a \<and> a < 0)) \<longrightarrow>
      handleInputChange parseFloat onRateChange ty i inp st = st)
   \<and> (parseFloat inp = Num a \<and> 0 \<le> a \<longrightarrow>
      handleInputChange parseFloat onRateChange ty i inp st = onRateChange ty i (Num (a / 100)) st)
   \<and> (parseFloat inp = PInf \<longrightarrow>
      handleInputChange parseFloat onRateChange ty i inp st = onRateChange ty i PInf st)
   \<and> list_all (\<lambda>r. js_ge r 0)
        (at_scheme (foldl (\<lambda>s e. tableEdit parseFloat e s) INITIAL_RATES edits) ty')
   \<and> list_all (\<lambda>r. js_ge r 0)
        (rates (at_scheme (foldl (\<lambda>s e. tableEdit_fixed parseFloat e s) INITIAL_TIER_CONFIG edits) ty'))"
proof -
  have a: "(parseFloat inp = NaN \<or> parseFloat inp = NInf \<or> (\<exists>a. parseFloat inp = Num a \<and> a < 0)) \<longrightarrow>
      handleInputChange parseFloat onRateChange ty i inp st = st"
  proof
    assume h: "parseFloat inp = NaN \<or> parseFloat inp = NInf \<or> (\<exists>a. parseFloat inp = Num a \<and> a < 0)"
    then have "\<not> (\<not> isNaN (parseFloat inp) \<and> js_ge (parseFloat inp) 0)"
      by (auto simp add: js_ge_def)
    then show "handleInputChange parseFloat onRateChange ty i inp st = st"
      by (rule handleInputChange_ignored [where parseFloat = parseFloat and inp = inp])
  qed
  have b: "parseFloat inp = Num a \<and> 0 \<le> a \<longrightarrow>
      handleInputChange parseFloat onRateChange ty i inp st = onRateChange ty i (Num (a / 100)) st"
  proof
    assume h: "parseFloat inp = Num a \<and> 0 \<le> a"
    then have g: "\<not> isNaN (parseFloat inp) \<and> js_ge (parseFloat inp) 0" by simp
    from handleInputChange_applied [where parseFloat = parseFloat and inp = inp, OF g] h
    show "handleInputChange parseFloat onRateChange ty i inp st = onRateChange ty i (Num (a / 100)) st"
      by simp
  qed
  have b': "parseFloat inp = PInf \<longrightarrow>
      handleInputChange parseFloat onRateChange ty i inp st = onRateChange ty i PInf st"
  proof
    assume h: "parseFloat inp = PInf"
    then have g: "\<not> isNaN (parseFloat inp) \<and> js_ge (parseFloat inp) 0" by (simp add: js_ge_def)
    from handleInputChange_applied [where parseFloat = parseFloat and inp = inp, OF g] h
    show "handleInputChange parseFloat onRateChange ty i inp st = onRateChange ty i PInf st"
      by simp
  qed
  have i: "length (monthly INITIAL_RATES) = 4" "length (quarterly INITIAL_RATES) = 4"
    "list_all (\<lambda>r. js_ge r 0) (monthly INITIAL_RATES)"
    "list_all (\<lambda>r. js_ge r 0) (quarterly INITIAL_RATES)"
    by (simp_all add: INITIAL_RATES_def)
  note r = tableEdits_invariant [where st = INITIAL_RATES and parseFloat = parseFloat
      and edits = edits, OF i]
  have c: "list_all (\<lambda>r. js_ge r 0)
        (at_scheme (foldl (\<lambda>s e. tableEdit parseFloat e s) INITIAL_RATES edits) ty')"
  proof (cases ty')
    case Monthly
    with r show ?thesis by simp
  next
    case Quarterly
    with r show ?thesis by simp
  qed
  have j: "length (rates (monthly INITIAL_TIER_CONFIG)) = 3"
    "length (rates (quarterly INITIAL_TIER_CONFIG)) = 3"
    "list_all (\<lambda>r. js_ge r 0) (rates (monthly INITIAL_TIER_CONFIG))"
    "list_all (\<lambda>r. js_ge r 0) (rates (quarterly INITIAL_TIER_CONFIG))"
    by (simp_all add: INITIAL_TIER_CONFIG_def)
  note f = tableEdits_fixed_invariant [where st = INITIAL_TIER_CONFIG and parseFloat = parseFloat
      and edits = edits, OF j]
  have d: "list_all (\<lambda>r. js_ge r 0)
        (rates (at_scheme (foldl (\<lambda>s e. tableEdit_fixed parseFloat e s) INITIAL_TIER_CONFIG edits) ty'))"
  proof (cases ty')
    case Monthly
    with f show ?thesis by simp
  next
    case Quarterly
    with f show ?thesis by simp
  qed
  show ?thesis
    by (intro conjI) (rule a, rule b, rule b', rule c, rule d)
qed

theorem C10_rates_stay_nonnegative_witness:
  "((\<lambda>s. if s = ''7'' then Num 7 else if s = ''-3'' then Num (-3)
          else if s = ''1e999'' then PInf else NaN) ''-3'' = NaN
      \<or> (\<lambda>s. if s = ''7'' then Num 7 else if s = ''-3'' then Num (-3)
          else if s = ''1e999'' then PInf else NaN) ''-3'' = NInf
      \<or> (\<exists>a. (\<lambda>s. if s = ''7'' then Num 7 else if s = ''-3'' then Num (-3)
          else if s = ''1e999'' then PInf else NaN) ''-3'' = Num a \<and> a < 0))
   \<and> handleInputChange (\<lambda>s. if s = ''7'' then Num 7 else if s = ''-3'' then Num (-3)
          else if s = ''1e999'' then PInf else NaN)
        handleRateChange Quarterly 3 ''-3'' INITIAL_RATES = INITIAL_RATES
   \<and> (\<lambda>s. if s = ''7'' then Num 7 else if s = ''-3'' then Num (-3)
          else if s = ''1e999'' then PInf else NaN) ''7'' = Num 7
   \<and> (0::real) \<le> 7
   \<and> handleInputChange (\<lambda>s. if s = ''7'' then Num 7 else if s = ''-3'' then Num (-3)
          else if s = ''1e999'' then PInf else NaN)
        handleRateChange Monthly 1 ''7'' INITIAL_RATES
      = handleRateChange Monthly 1 (Num (7 / 100)) INITIAL_RATES
   \<and> (\<lambda>s. if s = ''7'' then Num 7 else if s = ''-3'' then Num (-3)
          else if s = ''1e999'' then PInf else NaN) ''1e999'' = PInf
   \<and> handleInputChange (\<lambda>s. if s = ''7'' then Num 7 else if s = ''-3'' then Num (-3)
          else if s = ''1e999'' then PInf else NaN)
        handleRateChange Monthly 0 ''1e999'' INITIAL_RATES
      = handleRateChange Monthly 0 PInf INITIAL_RATES
   \<and> list_all (\<lambda>r. js_ge r 0)
        (at_scheme
          (foldl (\<lambda>s e. tableEdit
              (\<lambda>s. if s = ''7'' then Num 7 else if s = ''-3'' then Num (-3)
                 else if s = ''1e999'' then PInf else NaN) e s)
            INITIAL_RATES
            [(Monthly, 1, ''7''), (Quarterly, 3, ''-3''), (Monthly, 0, ''1e999''),
             (Monthly, 2, ''abc'')])
          Monthly)"
proof -
  let ?pf = "\<lambda>s. if s = ''7'' then Num 7 else if s = ''-3'' then Num (-3)
          else if s = ''1e999'' then PInf else NaN"
  let ?edits = "[(Monthly, 1, ''7''), (Quarterly, 3, ''-3''), (Monthly, 0, ''1e999''),
             (Monthly, 2, ''abc'')]"
  have h1: "?pf ''-3'' = NaN \<or> ?pf ''-3'' = NInf \<or> (\<exists>a. ?pf ''-3'' = Num a \<and> a < 0)" by simp
  have h2: "?pf ''7'' = Num 7 \<and> (0::real) \<le> 7" by simp
  have h3: "?pf ''1e999'' = PInf" by simp
  note c1 = C10_rates_stay_nonnegative [where parseFloat = ?pf and inp = "''-3''"
      and onRateChange = handleRateChange and ty = Quarterly and i = 3 and st = INITIAL_RATES
      and a = 0 and edits = ?edits and ty' = Monthly]
  have k1: "handleInputChange ?pf handleRateChange Quarterly 3 ''-3'' INITIAL_RATES = INITIAL_RATES"
    by (rule mp [OF conjunct1 [OF c1] h1])
  have k4: "list_all (\<lambda>r. js_ge r 0)
        (at_scheme (foldl (\<lambda>s e. tableEdit ?pf e s) INITIAL_RATES ?edits) Monthly)"
    by (rule conjunct1 [OF conjunct2 [OF conjunct2 [OF conjunct2 [OF c1]]]])
  note c2 = C10_rates_stay_nonnegative [where parseFloat = ?pf and inp = "''7''"
      and onRateChange = handleRateChange and ty = Monthly and i = 1 and st = INITIAL_RATES
      and a = 7 and edits = "[]" and ty' = Monthly]
  have k2: "handleInputChange ?pf handleRateChange Monthly 1 ''7'' INITIAL_RATES
      = handleRateChange Monthly 1 (Num (7 / 100)) INITIAL_RATES"
    by (rule mp [OF conjunct1 [OF conjunct2 [OF c2]] h2])
  note c3 = C10_rates_stay_nonnegative [where parseFloat = ?pf and inp = "''1e999''"
      and onRateChange = handleRateChange and ty = Monthly and i = 0 and st = INITIAL_RATES
      and a = 0 and edits = "[]" and ty' = Monthly]
  have k3: "handleInputChange ?pf handleRateChange Monthly 0 ''1e999'' INITIAL_RATES
      = handleRateChange Monthly 0 PInf INITIAL_RATES"
    by (rule mp [OF conjunct1 [OF conjunct2 [OF conjunct2 [OF c3]]] h3])
  have h2a: "?pf ''7'' = Num 7" and h2b: "(0::real) \<le> 7" by simp_all
  show ?thesis
    by (intro conjI) (rule h1, rule k1, rule h2a, rule h2b, rule k2, rule h3, rule k3, rule k4)
qed

end
